theory Spec2Isabelle
  imports Main "HOL-Library.Word"
begin

section \<open>Tensor literals of the lazy tensor core: literal.cc\<close>

text \<open>
  The translation unit defines three members of the class \<open>Literal\<close>: the
  constructor taking a shape, the accessor \<open>shape()\<close> and \<open>Hash()\<close>.
  A literal owns a shape (member \<open>shape_\<close>) and a tensor handle (member
  \<open>value_\<close>). The constructor and \<open>Hash()\<close> guard against tuple shapes
  with \<open>CHECK\<close>; the constructor asks the tensor library for an
  uninitialised tensor, \<open>Hash()\<close> asks the shape utility for a hash.

  Each member function is a function from the object and the trace of calls
  made so far to an outcome, the object afterwards and the trace afterwards.
  The trace records every call that leaves the translation unit, in the
  order the calls are made.
\<close>

subsection \<open>Shapes, tensors and literals\<close>

type_synonym int64 = "64 word"
type_synonym size_t = "64 word"

text \<open>
  Modelled from the spec: the scalar type tag of the tensor library
  (\<open>at::ScalarType\<close>) is declared outside literal.cc. The code only copies
  the tag from the shape into the tensor options; no definition below
  distinguishes one tag from another.
\<close>

datatype ScalarType =
  Byte | Char | Short | Int | Long | Half | Float | Double | Bool | BFloat16

text \<open>
  Modelled from the spec: the class \<open>Shape\<close> is declared outside literal.cc.
  A shape descriptor gives the element scalar type and the ordered dimension
  sizes (its rank is the number of sizes); a composite/tuple shape is an
  aggregate of sub-shapes. \<open>IsTuple\<close>, \<open>sizes\<close> and \<open>scalar_type\<close> are the
  three members that literal.cc calls. The code reads \<open>sizes\<close> and
  \<open>scalar_type\<close> only after the tuple guard has passed, so nothing is said
  about their value on a tuple shape.
\<close>

datatype Shape =
    ArrayShape (scalar_type: ScalarType) (sizes: "int64 list")
  | IsTuple: TupleShape (tuple_shapes: "Shape list")

definition rank :: "Shape \<Rightarrow> nat" where
  "rank s = length (sizes s)"

text \<open>\<open>at::TensorOptions options(shape.scalar_type())\<close>: options naming a dtype.\<close>

datatype TensorOptions = TensorOptions (dtype: ScalarType)

text \<open>
  Modelled from the spec: the tensor type of the tensor library is declared
  outside literal.cc. A tensor is a densely packed storage block with an
  element type and dimension sizes; a cell that has never been written holds
  \<open>None\<close>.
\<close>

record 'e Tensor =
  t_dtype :: ScalarType
  t_sizes :: "int64 list"
  t_data :: "'e option list"

text \<open>
  The class \<open>Literal\<close>: members \<open>shape_\<close> and \<open>value_\<close>. The tensor handle
  \<open>value_\<close> is default-constructed (no tensor, \<open>None\<close>) until the
  constructor body assigns it.
\<close>

record 'e Literal =
  shape_mem :: Shape
  value_mem :: "'e Tensor option"

subsection \<open>Calls that leave the translation unit\<close>

datatype event =
    AtEmpty "int64 list" TensorOptions
  | ShapeUtilHash Shape

fun is_AtEmpty :: "event \<Rightarrow> bool" where
  "is_AtEmpty (AtEmpty ds opts) = True"
| "is_AtEmpty (ShapeUtilHash s) = False"

text \<open>A member function returns a value or the process is aborted.\<close>

datatype 'a outcome = Returns 'a | Aborts

text \<open>
  Modelled from the spec: the macro \<open>CHECK\<close> is defined outside literal.cc.
  A failed check is a fatal invariant violation: the process aborts, no error
  is returned to the caller.
\<close>

definition CHECK :: "bool \<Rightarrow> unit outcome" where
  "CHECK c = (if c then Returns () else Aborts)"

text \<open>
  \<open>util::ToVector<int64_t>\<close> copies the elements of a range, in order, into a
  \<open>std::vector<int64_t>\<close>.
\<close>

definition ToVector :: "int64 list \<Rightarrow> int64 list" where
  "ToVector xs = map (\<lambda>x. x) xs"

text \<open>
  \<open>at::empty(dimensions, options)\<close> and \<open>ShapeUtil::Hash(shape)\<close> are
  defined outside literal.cc and are parameters of the member functions
  below: \<open>alloc\<close> is the allocator, \<open>H\<close> the structural hashing primitive.
  Each call is recorded in the trace.
\<close>

definition at_empty_call ::
  "(int64 list \<Rightarrow> TensorOptions \<Rightarrow> 'e Tensor) \<Rightarrow> int64 list \<Rightarrow> TensorOptions \<Rightarrow>
   event list \<Rightarrow> 'e Tensor \<times> event list" where
  "at_empty_call alloc dimensions options tr =
     (alloc dimensions options, tr @ [AtEmpty dimensions options])"

definition ShapeUtil_Hash_call ::
  "(Shape \<Rightarrow> size_t) \<Rightarrow> Shape \<Rightarrow> event list \<Rightarrow> size_t \<times> event list" where
  "ShapeUtil_Hash_call H s tr = (H s, tr @ [ShapeUtilHash s])"

text \<open>
  Modelled from the spec: the storage allocator \<open>at::empty\<close>. Given a scalar
  type tag and a sequence of dimension sizes it returns an uninitialised,
  densely packed storage block; the element type and the total element count
  (the product of the dimension sizes) are determined by the inputs alone.
\<close>

definition numel :: "int64 list \<Rightarrow> nat" where
  "numel dims = prod_list (map (\<lambda>d. nat (sint d)) dims)"

definition at_empty :: "int64 list \<Rightarrow> TensorOptions \<Rightarrow> 'e Tensor" where
  "at_empty dims opts =
     \<lparr>t_dtype = dtype opts, t_sizes = dims, t_data = replicate (numel dims) None\<rparr>"

subsection \<open>The member functions of \<open>Literal\<close>\<close>

text \<open>
  \<^verbatim>\<open>Literal::Literal(const Shape& shape) : shape_(shape) {
    CHECK(!shape_.IsTuple());
    std::vector<int64_t> dimensions = util::ToVector<int64_t>(shape.sizes());
    at::TensorOptions options(shape.scalar_type());
    value_ = at::empty(dimensions, options);
  }\<close>
\<close>

definition Literal_Literal ::
  "(int64 list \<Rightarrow> TensorOptions \<Rightarrow> 'e Tensor) \<Rightarrow> Shape \<Rightarrow> event list \<Rightarrow>
   unit outcome \<times> 'e Literal \<times> event list" where
  "Literal_Literal alloc shape tr =
     (let this = \<lparr>shape_mem = shape, value_mem = None\<rparr> in
      case CHECK (\<not> IsTuple (shape_mem this)) of
        Aborts \<Rightarrow> (Aborts, this, tr)
      | Returns u \<Rightarrow>
          (let dimensions = ToVector (sizes shape);
               options = TensorOptions (scalar_type shape);
               (t, tr') = at_empty_call alloc dimensions options tr
           in (Returns (), this\<lparr>value_mem := Some t\<rparr>, tr')))"

text \<open>\<^verbatim>\<open>const Shape& Literal::shape() const { return shape_; }\<close>\<close>

definition Literal_shape ::
  "'e Literal \<Rightarrow> event list \<Rightarrow> Shape outcome \<times> 'e Literal \<times> event list" where
  "Literal_shape this tr = (Returns (shape_mem this), this, tr)"

text \<open>
  \<^verbatim>\<open>size_t Literal::Hash() const {
    size_t hash_value = ShapeUtil::Hash(shape());
    CHECK(!shape().IsTuple());
    return hash_value;
  }\<close>
\<close>

definition Literal_Hash ::
  "(Shape \<Rightarrow> size_t) \<Rightarrow> 'e Literal \<Rightarrow> event list \<Rightarrow>
   size_t outcome \<times> 'e Literal \<times> event list" where
  "Literal_Hash H this tr =
     (case Literal_shape this tr of
        (Aborts, this1, tr1) \<Rightarrow> (Aborts, this1, tr1)
      | (Returns s, this1, tr1) \<Rightarrow>
          (let (hash_value, tr2) = ShapeUtil_Hash_call H s tr1 in
           case Literal_shape this1 tr2 of
             (Aborts, this2, tr3) \<Rightarrow> (Aborts, this2, tr3)
           | (Returns s', this2, tr3) \<Rightarrow>
               (case CHECK (\<not> IsTuple s') of
                  Aborts \<Rightarrow> (Aborts, this2, tr3)
                | Returns u \<Rightarrow> (Returns hash_value, this2, tr3))))"

subsection \<open>Unfolded forms of the member functions\<close>

lemma Literal_Literal_array:
  "\<not> IsTuple shape \<Longrightarrow>
   Literal_Literal alloc shape tr =
     (Returns (),
      \<lparr>shape_mem = shape,
       value_mem = Some (alloc (sizes shape) (TensorOptions (scalar_type shape)))\<rparr>,
      tr @ [AtEmpty (sizes shape) (TensorOptions (scalar_type shape))])"
  by (simp add: Literal_Literal_def CHECK_def ToVector_def at_empty_call_def Let_def)

lemma Literal_Literal_tuple:
  "IsTuple shape \<Longrightarrow>
   Literal_Literal alloc shape tr =
     (Aborts, \<lparr>shape_mem = shape, value_mem = None\<rparr>, tr)"
  by (simp add: Literal_Literal_def CHECK_def)

lemma Literal_Hash_array:
  "\<not> IsTuple (shape_mem this) \<Longrightarrow>
   Literal_Hash H this tr =
     (Returns (H (shape_mem this)), this, tr @ [ShapeUtilHash (shape_mem this)])"
  by (simp add: Literal_Hash_def Literal_shape_def ShapeUtil_Hash_call_def CHECK_def)

lemma Literal_Hash_tuple:
  "IsTuple (shape_mem this) \<Longrightarrow>
   Literal_Hash H this tr = (Aborts, this, tr @ [ShapeUtilHash (shape_mem this)])"
  by (simp add: Literal_Hash_def Literal_shape_def ShapeUtil_Hash_call_def CHECK_def)

subsection \<open>The constructor keeps the shape\<close>

text \<open>
  C1. For every non-tuple shape \<open>s\<close>, constructing a literal from \<open>s\<close>
  returns, and calling \<open>shape()\<close> on the constructed literal returns a
  descriptor equal to \<open>s\<close>: the constructor stores the given shape unchanged.
\<close>

theorem construct_shape_preserved:
  "\<not> IsTuple s \<Longrightarrow>
   (case Literal_Literal alloc s tr of
      (r, this, tr') \<Rightarrow>
        r = Returns () \<and> shape_mem this = s \<and>
        fst (Literal_shape this tr') = Returns s)"
  by (simp add: Literal_Literal_array Literal_shape_def)

theorem construct_shape_preserved_witness:
  "\<not> IsTuple (ArrayShape Float [4]) \<and>
   (case Literal_Literal (at_empty :: int64 list \<Rightarrow> TensorOptions \<Rightarrow> int Tensor)
           (ArrayShape Float [4]) [] of
      (r, this, tr') \<Rightarrow>
        r = Returns () \<and> shape_mem this = ArrayShape Float [4] \<and>
        fst (Literal_shape this tr') = Returns (ArrayShape Float [4]))"
  using construct_shape_preserved
          [of "ArrayShape Float [4]"
              "at_empty :: int64 list \<Rightarrow> TensorOptions \<Rightarrow> int Tensor" "[]"]
  by simp

subsection \<open>The hash is a function of the shape\<close>

lemma array_shape_eqI:
  "\<not> IsTuple s1 \<Longrightarrow> \<not> IsTuple s2 \<Longrightarrow> sizes s1 = sizes s2 \<Longrightarrow>
   scalar_type s1 = scalar_type s2 \<Longrightarrow> s1 = s2"
  by (cases s1; cases s2) simp_all

text \<open>
  C2. For every pair of non-tuple shapes \<open>s1\<close>, \<open>s2\<close> that agree in rank,
  dimension sizes and scalar type, the hash of the literal constructed from
  \<open>s1\<close> equals the hash of the literal constructed from \<open>s2\<close>, whatever
  tensors the allocator returned and whatever calls were made before. The
  hash does not depend on the storage: replacing the tensor of a literal
  leaves the result of \<open>Hash()\<close> as it was.
\<close>

theorem hash_equal_on_equal_shapes:
  assumes "\<not> IsTuple s1" and "\<not> IsTuple s2"
    and "rank s1 = rank s2" and "sizes s1 = sizes s2"
    and "scalar_type s1 = scalar_type s2"
  shows "fst (Literal_Hash H (fst (snd (Literal_Literal alloc1 s1 tr1))) tr1') =
         fst (Literal_Hash H (fst (snd (Literal_Literal alloc2 s2 tr2))) tr2') \<and>
         fst (Literal_Hash H (fst (snd (Literal_Literal alloc1 s1 tr1))) tr1') =
           Returns (H s1) \<and>
         fst (Literal_Hash H (this\<lparr>value_mem := v\<rparr>) tr3) =
           fst (Literal_Hash H this tr3)"
proof -
  from assms have eq: "s1 = s2"
    by (simp add: array_shape_eqI)
  have h1: "fst (Literal_Hash H (fst (snd (Literal_Literal alloc1 s1 tr1))) tr1') =
            Returns (H s1)"
    using assms(1) by (simp add: Literal_Literal_array Literal_Hash_array)
  have h2: "fst (Literal_Hash H (fst (snd (Literal_Literal alloc2 s2 tr2))) tr2') =
            Returns (H s2)"
    using assms(2) by (simp add: Literal_Literal_array Literal_Hash_array)
  have h3: "fst (Literal_Hash H (this\<lparr>value_mem := v\<rparr>) tr3) =
            fst (Literal_Hash H this tr3)"
  proof (cases "IsTuple (shape_mem this)")
    case True
    then show ?thesis by (simp add: Literal_Hash_tuple)
  next
    case False
    then show ?thesis by (simp add: Literal_Hash_array)
  qed
  from eq h1 h2 h3 show ?thesis by simp
qed

theorem hash_equal_on_equal_shapes_witness:
  "\<not> IsTuple (ArrayShape Float [2, 3]) \<and>
   rank (ArrayShape Float [2, 3]) = rank (ArrayShape Float [2, 3]) \<and>
   fst (Literal_Hash (\<lambda>s. of_nat (rank s))
          (fst (snd (Literal_Literal
             (at_empty :: int64 list \<Rightarrow> TensorOptions \<Rightarrow> int Tensor)
             (ArrayShape Float [2, 3]) []))) []) =
   fst (Literal_Hash (\<lambda>s. of_nat (rank s))
          (fst (snd (Literal_Literal
             (\<lambda>ds opts. \<lparr>t_dtype = dtype opts, t_sizes = ds,
                          t_data = [Some (1::int), Some 2, Some 3, Some 4, Some 5, Some 6]\<rparr>)
             (ArrayShape Float [2, 3]) [ShapeUtilHash (TupleShape [])]))) []) \<and>
   fst (Literal_Hash (\<lambda>s. of_nat (rank s))
          (fst (snd (Literal_Literal
             (at_empty :: int64 list \<Rightarrow> TensorOptions \<Rightarrow> int Tensor)
             (ArrayShape Float [2, 3]) []))) []) = Returns 2 \<and>
   fst (Literal_Hash (\<lambda>s. of_nat (rank s))
          (\<lparr>shape_mem = ArrayShape Float [2, 3], value_mem = None\<rparr>
             \<lparr>value_mem := Some (at_empty [2, 3] (TensorOptions Float) :: int Tensor)\<rparr>) []) =
   fst (Literal_Hash (\<lambda>s. of_nat (rank s))
          \<lparr>shape_mem = ArrayShape Float [2, 3], value_mem = None :: int Tensor option\<rparr> [])"
  using hash_equal_on_equal_shapes
          [of "ArrayShape Float [2, 3]" "ArrayShape Float [2, 3]"
              "\<lambda>s. of_nat (rank s)"
              "at_empty :: int64 list \<Rightarrow> TensorOptions \<Rightarrow> int Tensor" "[]" "[]"
              "\<lambda>ds opts. \<lparr>t_dtype = dtype opts, t_sizes = ds,
                 t_data = [Some (1::int), Some 2, Some 3, Some 4, Some 5, Some 6]\<rparr>"
              "[ShapeUtilHash (TupleShape [])]" "[]"
              "Some (at_empty [2, 3] (TensorOptions Float) :: int Tensor)"
              "\<lparr>shape_mem = ArrayShape Float [2, 3], value_mem = None :: int Tensor option\<rparr>"
              "[]"]
  by (auto simp add: rank_def)

subsection \<open>The tuple guards\<close>

text \<open>
  C3. Constructing a literal from a tuple shape aborts (the outcome is
  \<open>Aborts\<close>, no value is returned); for every non-tuple shape the guard
  passes and the constructor returns.
\<close>

theorem construct_guard:
  "(IsTuple s \<longrightarrow> fst (Literal_Literal alloc s tr) = Aborts) \<and>
   (\<not> IsTuple s \<longrightarrow> fst (Literal_Literal alloc s tr) = Returns ())"
  by (simp add: Literal_Literal_array Literal_Literal_tuple)

theorem construct_guard_witness:
  "IsTuple (TupleShape [ArrayShape Float [4], ArrayShape Long []]) \<and>
   fst (Literal_Literal (at_empty :: int64 list \<Rightarrow> TensorOptions \<Rightarrow> int Tensor)
          (TupleShape [ArrayShape Float [4], ArrayShape Long []]) []) = Aborts \<and>
   \<not> IsTuple (ArrayShape Float [4]) \<and>
   fst (Literal_Literal (at_empty :: int64 list \<Rightarrow> TensorOptions \<Rightarrow> int Tensor)
          (ArrayShape Float [4]) []) = Returns ()"
  using construct_guard
          [of "TupleShape [ArrayShape Float [4], ArrayShape Long []]"
              "at_empty :: int64 list \<Rightarrow> TensorOptions \<Rightarrow> int Tensor" "[]"]
        construct_guard
          [of "ArrayShape Float [4]"
              "at_empty :: int64 list \<Rightarrow> TensorOptions \<Rightarrow> int Tensor" "[]"]
  by simp

text \<open>
  C4. \<open>Hash()\<close> on a literal whose shape is a tuple aborts, as the
  constructor does on that shape, and does not return; on a literal whose
  shape is not a tuple it returns a value.
\<close>

theorem hash_guard:
  "(IsTuple (shape_mem this) \<longrightarrow>
      fst (Literal_Hash H this tr) = Aborts \<and>
      fst (Literal_Literal alloc (shape_mem this) tr') = Aborts) \<and>
   (\<not> IsTuple (shape_mem this) \<longrightarrow>
      (case fst (Literal_Hash H this tr) of Returns h \<Rightarrow> True | Aborts \<Rightarrow> False))"
  by (simp add: Literal_Hash_array Literal_Hash_tuple Literal_Literal_tuple)

theorem hash_guard_witness:
  "IsTuple (shape_mem \<lparr>shape_mem = TupleShape [], value_mem = None :: int Tensor option\<rparr>) \<and>
   fst (Literal_Hash (\<lambda>s. 7)
          \<lparr>shape_mem = TupleShape [], value_mem = None :: int Tensor option\<rparr> []) = Aborts \<and>
   \<not> IsTuple (shape_mem \<lparr>shape_mem = ArrayShape Float [4],
                          value_mem = Some (at_empty [4] (TensorOptions Float) :: int Tensor)\<rparr>) \<and>
   (case fst (Literal_Hash (\<lambda>s. 7)
          \<lparr>shape_mem = ArrayShape Float [4],
           value_mem = Some (at_empty [4] (TensorOptions Float) :: int Tensor)\<rparr> [])
    of Returns h \<Rightarrow> True | Aborts \<Rightarrow> False)"
  using hash_guard
          [of "\<lparr>shape_mem = TupleShape [], value_mem = None :: int Tensor option\<rparr>"
              "\<lambda>s. 7" "[]"
              "at_empty :: int64 list \<Rightarrow> TensorOptions \<Rightarrow> int Tensor" "[]"]
        hash_guard
          [of "\<lparr>shape_mem = ArrayShape Float [4],
                value_mem = Some (at_empty [4] (TensorOptions Float) :: int Tensor)\<rparr>"
              "\<lambda>s. 7" "[]"
              "at_empty :: int64 list \<Rightarrow> TensorOptions \<Rightarrow> int Tensor" "[]"]
  by simp

subsection \<open>The allocation made by the constructor\<close>

lemma numel_prod_sint:
  "\<forall>d\<in>set dims. 0 \<le> sint d \<Longrightarrow> int (numel dims) = prod_list (map sint dims)"
  unfolding numel_def by (induction dims) simp_all

lemma at_empty_length: "length (t_data (at_empty dims opts)) = numel dims"
  by (simp add: at_empty_def)

text \<open>
  C5. For every non-tuple shape \<open>s\<close> (with dimension sizes that are not
  negative, as the data model has them), the constructor calls the allocator
  exactly once, with the ordered dimension sizes of \<open>s\<close> and with options
  naming the scalar type of \<open>s\<close>. With the allocator of the spec the literal
  then owns one storage block of that element type and those dimensions,
  whose element count is the product of the dimension sizes of \<open>s\<close> and
  whose cells are all uninitialised.
\<close>

theorem construct_allocates_once:
  assumes "\<not> IsTuple s" and "\<forall>d\<in>set (sizes s). 0 \<le> sint d"
  shows "snd (snd (Literal_Literal alloc s tr)) =
           tr @ [AtEmpty (sizes s) (TensorOptions (scalar_type s))] \<and>
         (case Literal_Literal at_empty s tr of
            (r, this, tr') \<Rightarrow>
              r = Returns () \<and>
              tr' = tr @ [AtEmpty (sizes s) (TensorOptions (scalar_type s))] \<and>
              (case value_mem this of
                 None \<Rightarrow> False
               | Some b \<Rightarrow>
                   t_dtype b = scalar_type s \<and> t_sizes b = sizes s \<and>
                   int (length (t_data b)) = prod_list (map sint (sizes s)) \<and>
                   list_all (\<lambda>c. c = None) (t_data b)))"
proof -
  have tr: "snd (snd (Literal_Literal alloc s tr)) =
              tr @ [AtEmpty (sizes s) (TensorOptions (scalar_type s))]"
    using assms(1) by (simp add: Literal_Literal_array)
  have len: "int (length (t_data (at_empty (sizes s) (TensorOptions (scalar_type s))))) =
             prod_list (map sint (sizes s))"
    using assms(2) by (simp add: at_empty_length numel_prod_sint)
  have uninit: "list_all (\<lambda>c. c = None)
                  (t_data (at_empty (sizes s) (TensorOptions (scalar_type s))))"
    by (simp add: at_empty_def list_all_iff)
  have ty: "t_dtype (at_empty (sizes s) (TensorOptions (scalar_type s))) = scalar_type s"
    by (simp add: at_empty_def)
  have sz: "t_sizes (at_empty (sizes s) (TensorOptions (scalar_type s))) = sizes s"
    by (simp add: at_empty_def)
  from assms(1) tr len uninit ty sz show ?thesis
    by (simp add: Literal_Literal_array)
qed

theorem construct_allocates_once_witness:
  "\<not> IsTuple (ArrayShape Float [4]) \<and>
   0 \<le> sint (4 :: int64) \<and>
   snd (snd (Literal_Literal
               (\<lambda>ds opts. \<lparr>t_dtype = dtype opts, t_sizes = ds, t_data = [Some (0::int)]\<rparr>)
               (ArrayShape Float [4]) [])) =
     [AtEmpty [4] (TensorOptions Float)] \<and>
   Literal_Literal at_empty (ArrayShape Float [4]) [] =
     (Returns (),
      \<lparr>shape_mem = ArrayShape Float [4],
       value_mem = Some \<lparr>t_dtype = Float, t_sizes = [4],
                         t_data = [None, None, None, None :: int option]\<rparr>\<rparr>,
      [AtEmpty [4] (TensorOptions Float)]) \<and>
   prod_list (map sint [4 :: int64]) = 4"
  using construct_allocates_once
          [of "ArrayShape Float [4]"
              "\<lambda>ds opts. \<lparr>t_dtype = dtype opts, t_sizes = ds, t_data = [Some (0::int)]\<rparr>"
              "[]"]
  by (simp add: Literal_Literal_array at_empty_def numel_def numeral_eq_Suc)

subsection \<open>Determinism and frame of the accessors\<close>

text \<open>
  C6. For every literal with a non-tuple shape, \<open>Hash()\<close> is deterministic:
  a second call, made on the object and the trace the first call left,
  returns the same value as the first, and any literal with the same shape
  gives that value too, whatever its tensor and whatever the trace.
\<close>

theorem hash_deterministic:
  assumes "\<not> IsTuple (shape_mem this)" and "shape_mem that = shape_mem this"
  shows "(case Literal_Hash H this tr of
            (r1, this1, tr1) \<Rightarrow>
              (case Literal_Hash H this1 tr1 of
                 (r2, this2, tr2) \<Rightarrow> r1 = r2 \<and> r1 = Returns (H (shape_mem this)))) \<and>
         fst (Literal_Hash H that tr') = fst (Literal_Hash H this tr)"
  using assms by (simp add: Literal_Hash_array)

theorem hash_deterministic_witness:
  "\<not> IsTuple (shape_mem \<lparr>shape_mem = ArrayShape Float [4],
                          value_mem = None :: int Tensor option\<rparr>) \<and>
   (case Literal_Hash (\<lambda>s. of_nat (rank s) + 40)
           \<lparr>shape_mem = ArrayShape Float [4], value_mem = None :: int Tensor option\<rparr> [] of
      (r1, this1, tr1) \<Rightarrow>
        (case Literal_Hash (\<lambda>s. of_nat (rank s) + 40) this1 tr1 of
           (r2, this2, tr2) \<Rightarrow> r1 = r2 \<and> r1 = Returns 41)) \<and>
   fst (Literal_Hash (\<lambda>s. of_nat (rank s) + 40)
          \<lparr>shape_mem = ArrayShape Float [4],
           value_mem = Some (at_empty [4] (TensorOptions Float) :: int Tensor)\<rparr>
          [AtEmpty [4] (TensorOptions Float)]) =
   fst (Literal_Hash (\<lambda>s. of_nat (rank s) + 40)
          \<lparr>shape_mem = ArrayShape Float [4], value_mem = None :: int Tensor option\<rparr> [])"
  using hash_deterministic
          [of "\<lparr>shape_mem = ArrayShape Float [4], value_mem = None :: int Tensor option\<rparr>"
              "\<lparr>shape_mem = ArrayShape Float [4],
                value_mem = Some (at_empty [4] (TensorOptions Float) :: int Tensor)\<rparr>"
              "\<lambda>s. of_nat (rank s) + 40" "[]" "[AtEmpty [4] (TensorOptions Float)]"]
  by (simp add: rank_def)

text \<open>
  C7. \<open>shape()\<close> and \<open>Hash()\<close> leave the literal unchanged: after either
  call the owned shape and the owned tensor are what they were before.
  \<open>shape()\<close> makes no outside call at all, and \<open>Hash()\<close> makes no call to
  the allocator.
\<close>

theorem accessors_leave_literal_unchanged:
  "fst (snd (Literal_shape this tr)) = this \<and>
   snd (snd (Literal_shape this tr)) = tr \<and>
   fst (snd (Literal_Hash H this tr)) = this \<and>
   shape_mem (fst (snd (Literal_Hash H this tr))) = shape_mem this \<and>
   value_mem (fst (snd (Literal_Hash H this tr))) = value_mem this \<and>
   filter is_AtEmpty (snd (snd (Literal_Hash H this tr))) = filter is_AtEmpty tr"
proof (cases "IsTuple (shape_mem this)")
  case True
  then show ?thesis by (simp add: Literal_shape_def Literal_Hash_tuple)
next
  case False
  then show ?thesis by (simp add: Literal_shape_def Literal_Hash_array)
qed

subsection \<open>What \<open>Hash()\<close> computes, and when\<close>

text \<open>
  C8. Whenever the owned shape is not a tuple, \<open>Hash()\<close> returns the value
  of the structural hashing primitive at the shape that \<open>shape()\<close> returns,
  and the only outside call it makes is that one call of the primitive.
\<close>

theorem hash_is_shape_util_hash:
  assumes "fst (Literal_shape this tr) = Returns s" and "\<not> IsTuple s"
  shows "fst (Literal_Hash H this tr) = Returns (H s) \<and>
         snd (snd (Literal_Hash H this tr)) = tr @ [ShapeUtilHash s]"
proof -
  from assms(1) have "shape_mem this = s"
    by (simp add: Literal_shape_def)
  with assms(2) show ?thesis
    by (simp add: Literal_Hash_array)
qed

theorem hash_is_shape_util_hash_witness:
  "fst (Literal_shape
          \<lparr>shape_mem = ArrayShape Double [2, 5], value_mem = None :: int Tensor option\<rparr> []) =
     Returns (ArrayShape Double [2, 5]) \<and>
   \<not> IsTuple (ArrayShape Double [2, 5]) \<and>
   fst (Literal_Hash (\<lambda>s. of_nat (rank s) * 3)
          \<lparr>shape_mem = ArrayShape Double [2, 5], value_mem = None :: int Tensor option\<rparr> []) =
     Returns 6 \<and>
   snd (snd (Literal_Hash (\<lambda>s. of_nat (rank s) * 3)
          \<lparr>shape_mem = ArrayShape Double [2, 5], value_mem = None :: int Tensor option\<rparr> [])) =
     [ShapeUtilHash (ArrayShape Double [2, 5])]"
  using hash_is_shape_util_hash
          [of "\<lparr>shape_mem = ArrayShape Double [2, 5], value_mem = None :: int Tensor option\<rparr>"
              "[]" "ArrayShape Double [2, 5]" "\<lambda>s. of_nat (rank s) * 3"]
  by (simp add: rank_def Literal_shape_def)

text \<open>
  C9. When the constructor is given a tuple shape, the guard fires before
  the allocator is called: the constructor aborts with the trace as it found
  it, the shape copied into the member and the tensor handle still empty.
\<close>

theorem construct_tuple_aborts_before_allocation:
  "IsTuple s \<Longrightarrow>
   Literal_Literal alloc s tr = (Aborts, \<lparr>shape_mem = s, value_mem = None\<rparr>, tr)"
  by (simp add: Literal_Literal_def CHECK_def)

theorem construct_tuple_aborts_before_allocation_witness:
  "IsTuple (TupleShape [ArrayShape Float [4]]) \<and>
   Literal_Literal (at_empty :: int64 list \<Rightarrow> TensorOptions \<Rightarrow> int Tensor)
     (TupleShape [ArrayShape Float [4]]) [] =
     (Aborts, \<lparr>shape_mem = TupleShape [ArrayShape Float [4]], value_mem = None\<rparr>, [])"
  using construct_tuple_aborts_before_allocation
          [of "TupleShape [ArrayShape Float [4]]"
              "at_empty :: int64 list \<Rightarrow> TensorOptions \<Rightarrow> int Tensor" "[]"]
  by simp

text \<open>
  C10. In \<open>Hash()\<close> the tuple guard is evaluated after the hash has been
  computed: on a literal whose shape is a tuple, the structural hashing
  primitive is called on that tuple shape, and only then the call aborts.
\<close>

theorem hash_tuple_hashes_before_abort:
  "IsTuple (shape_mem this) \<Longrightarrow>
   Literal_Hash H this tr = (Aborts, this, tr @ [ShapeUtilHash (shape_mem this)])"
  by (simp add: Literal_Hash_def Literal_shape_def ShapeUtil_Hash_call_def CHECK_def)

theorem hash_tuple_hashes_before_abort_witness:
  "IsTuple (shape_mem \<lparr>shape_mem = TupleShape [ArrayShape Float [4]],
                        value_mem = None :: int Tensor option\<rparr>) \<and>
   Literal_Hash (\<lambda>s. 7)
     \<lparr>shape_mem = TupleShape [ArrayShape Float [4]], value_mem = None :: int Tensor option\<rparr> [] =
     (Aborts,
      \<lparr>shape_mem = TupleShape [ArrayShape Float [4]], value_mem = None\<rparr>,
      [ShapeUtilHash (TupleShape [ArrayShape Float [4]])])"
  using hash_tuple_hashes_before_abort
          [of "\<lparr>shape_mem = TupleShape [ArrayShape Float [4]],
                value_mem = None :: int Tensor option\<rparr>" "\<lambda>s. 7" "[]"]
  by simp

end
